theory Spec2Isabelle
  imports Complex_Main
begin

section \<open>JavaScript values used by the usage service\<close>

text \<open>
  A JavaScript \<open>number\<close>. Finite values are modelled by rationals (the rounding of
  double arithmetic and the sign of zero are not modelled); the two infinities and
  \<open>NaN\<close> are values of their own, because \<open>x / 0\<close> produces them instead of raising.
\<close>

datatype jsnum = Num rat | PInf | NInf | NaN

text \<open>The operator \<open>/\<close> on numbers.\<close>

fun js_div :: "jsnum \<Rightarrow> jsnum \<Rightarrow> jsnum" where
  "js_div NaN y = NaN"
| "js_div x NaN = NaN"
| "js_div (Num a) (Num b) =
     (if b \<noteq> 0 then Num (a / b)
      else if a = 0 then NaN
      else if 0 < a then PInf else NInf)"
| "js_div (Num a) y = Num 0"
| "js_div PInf (Num b) = (if 0 \<le> b then PInf else NInf)"
| "js_div NInf (Num b) = (if 0 \<le> b then NInf else PInf)"
| "js_div x y = NaN"

text \<open>The operator \<open>*\<close> on numbers.\<close>

fun js_mul :: "jsnum \<Rightarrow> jsnum \<Rightarrow> jsnum" where
  "js_mul NaN y = NaN"
| "js_mul x NaN = NaN"
| "js_mul (Num a) (Num b) = Num (a * b)"
| "js_mul (Num a) PInf = (if a = 0 then NaN else if 0 < a then PInf else NInf)"
| "js_mul (Num a) NInf = (if a = 0 then NaN else if 0 < a then NInf else PInf)"
| "js_mul PInf (Num b) = (if b = 0 then NaN else if 0 < b then PInf else NInf)"
| "js_mul NInf (Num b) = (if b = 0 then NaN else if 0 < b then NInf else PInf)"
| "js_mul PInf PInf = PInf"
| "js_mul PInf NInf = NInf"
| "js_mul NInf PInf = NInf"
| "js_mul NInf NInf = PInf"

text \<open>\<open>Math.round\<close>: the nearest integer, halves rounded up; infinities and \<open>NaN\<close> pass through.\<close>

fun Math_round :: "jsnum \<Rightarrow> jsnum" where
  "Math_round (Num r) = Num (of_int \<lfloor>r + 1 / 2\<rfloor>)"
| "Math_round x = x"

text \<open>Truthiness of a number (\<open>0\<close> and \<open>NaN\<close> are falsy) and the idiom \<open>x || 0\<close>.\<close>

fun truthy_num :: "jsnum \<Rightarrow> bool" where
  "truthy_num (Num r) = (r \<noteq> 0)"
| "truthy_num NaN = False"
| "truthy_num x = True"

definition or_zero :: "jsnum option \<Rightarrow> jsnum" where
  "or_zero x = (case x of None \<Rightarrow> Num 0 | Some n \<Rightarrow> if truthy_num n then n else Num 0)"

text \<open>Truthiness of an optional string (\<open>undefined\<close> and \<open>''\<close> are falsy) and \<open>a || b\<close>.\<close>

definition truthy_str :: "string option \<Rightarrow> bool" where
  "truthy_str x = (case x of None \<Rightarrow> False | Some t \<Rightarrow> t \<noteq> [])"

definition or_str :: "string option \<Rightarrow> string option \<Rightarrow> string option" where
  "or_str a b = (if truthy_str a then a else b)"

text \<open>\<open>String.prototype.startsWith\<close>, \<open>includes\<close> and \<open>trim\<close> (ASCII white space).\<close>

definition startsWith :: "string \<Rightarrow> string \<Rightarrow> bool" where
  "startsWith t p = (take (length p) t = p)"

fun str_includes :: "string \<Rightarrow> string \<Rightarrow> bool" where
  "str_includes [] p = (p = [])"
| "str_includes (c # t) p = (startsWith (c # t) p \<or> str_includes t p)"

definition white_space :: "char \<Rightarrow> bool" where
  "white_space c = (c \<in> {CHR '' '', CHR 0x09, CHR 0x0A, CHR 0x0B, CHR 0x0C, CHR 0x0D})"

definition trim :: "string \<Rightarrow> string" where
  "trim t = rev (dropWhile white_space (rev (dropWhile white_space t)))"

text \<open>Decimal rendering of a status code inside a template literal.\<close>

fun show_nat :: "nat \<Rightarrow> string" where
  "show_nat n =
     (if n < 10 then [''0123456789'' ! n]
      else show_nat (n div 10) @ [''0123456789'' ! (n mod 10)])"

declare show_nat.simps [simp del]

definition show_int :: "int \<Rightarrow> string" where
  "show_int i = (if i < 0 then ''-'' @ show_nat (nat (- i)) else show_nat (nat i))"

definition show_status :: "int option \<Rightarrow> string" where
  "show_status c = (case c of None \<Rightarrow> ''undefined'' | Some i \<Rightarrow> show_int i)"

section \<open>Data model\<close>

text \<open>
  The interface \<open>UsageSummary\<close>. The value comes out of \<open>JSON.parse\<close> unchecked, and the
  code reads \<open>individualUsage\<close>, \<open>overall\<close>, \<open>teamUsage\<close>, \<open>onDemand\<close> and \<open>pooled\<close>
  through \<open>?.\<close> and truthiness tests, so these five sections are optional here
  (\<open>None\<close>: missing or falsy).
\<close>

record usage_bucket =
  enabled :: bool
  used :: jsnum
  limit :: jsnum
  remaining :: jsnum

record individual_usage =
  overall :: "usage_bucket option"

record team_usage =
  onDemand :: "usage_bucket option"
  pooled :: "usage_bucket option"

record UsageSummary =
  billingCycleStart :: string
  billingCycleEnd :: string
  membershipType :: string
  limitType :: string
  isUnlimited :: bool
  autoModelSelectedDisplayMessage :: string
  namedModelSelectedDisplayMessage :: string
  individualUsage :: "individual_usage option"
  teamUsage :: "team_usage option"

text \<open>A cache entry \<open>{ data, timestamp }\<close>; the timestamp is \<open>Date.now()\<close> in milliseconds.\<close>

record cache_entry =
  data :: UsageSummary
  timestamp :: int

section \<open>Derived accessors\<close>

definition percentage_of :: "usage_bucket \<Rightarrow> jsnum" where
  "percentage_of b = Math_round (js_mul (js_div (used b) (limit b)) (Num 100))"

definition getIndividualUsagePercentage :: "UsageSummary \<Rightarrow> jsnum" where
  "getIndividualUsagePercentage usageData =
     (case (case individualUsage usageData of None \<Rightarrow> None | Some i \<Rightarrow> overall i) of
        None \<Rightarrow> Num 0
      | Some b \<Rightarrow> percentage_of b)"

record usage_info =
  percentage :: jsnum
  info_used :: jsnum
  info_limit :: jsnum

record team_usage_info =
  info_onDemand :: usage_info
  info_pooled :: usage_info

definition bucket_info :: "usage_bucket option \<Rightarrow> usage_info" where
  "bucket_info b =
     \<lparr> percentage = (case b of None \<Rightarrow> Num 0 | Some x \<Rightarrow> percentage_of x),
       info_used = or_zero (map_option used b),
       info_limit = or_zero (map_option limit b) \<rparr>"

definition getTeamUsageInfo :: "UsageSummary \<Rightarrow> team_usage_info" where
  "getTeamUsageInfo usageData =
     (let teamUsage = teamUsage usageData in
      \<lparr> info_onDemand = bucket_info (case teamUsage of None \<Rightarrow> None | Some t \<Rightarrow> onDemand t),
        info_pooled = bucket_info (case teamUsage of None \<Rightarrow> None | Some t \<Rightarrow> pooled t) \<rparr>)"

definition getMockUsageData :: UsageSummary where
  "getMockUsageData =
     \<lparr> billingCycleStart = ''2026-01-01T00:00:00.000Z'',
       billingCycleEnd = ''2026-02-01T00:00:00.000Z'',
       membershipType = ''enterprise'',
       limitType = ''team'',
       isUnlimited = False,
       autoModelSelectedDisplayMessage = ''You've used 0% of your included total usage'',
       namedModelSelectedDisplayMessage = ''You've used 0% of your included API usage'',
       individualUsage = Some \<lparr> overall = Some
         \<lparr> enabled = True, used = Num 794, limit = Num 5000, remaining = Num 4206 \<rparr> \<rparr>,
       teamUsage = Some
         \<lparr> onDemand = Some
             \<lparr> enabled = True, used = Num 0, limit = Num 15000000, remaining = Num 15000000 \<rparr>,
           pooled = Some
             \<lparr> enabled = True, used = Num 6175916, limit = Num 180000000,
               remaining = Num 173824084 \<rparr> \<rparr> \<rparr>"

section \<open>The world the service talks to\<close>

text \<open>
  A rejection value: an \<open>Error\<close> object with its message, or any other thrown value with
  its \<open>String(...)\<close> rendering.
\<close>

datatype js_error = Error string | Thrown string

datatype agent = HttpsProxyAgent string | DirectAgent

record request =
  req_url :: string
  req_headers :: "(string \<times> string) list"
  req_agent :: "agent option"

text \<open>
  What \<open>https.request\<close> delivers for one request: an \<open>error\<close> event, a \<open>timeout\<close>
  event, or a response with its status line, its \<open>Location\<close> header, the chunks of its
  body and the way the body stream finishes (\<open>end\<close>, or \<open>error\<close> with a value).
\<close>

record response =
  statusCode :: "int option"
  statusMessage :: string
  location :: "string option"
  chunks :: "string list"
  streamError :: "js_error option"

datatype outcome = RequestError js_error | RequestTimeout | Response response

text \<open>
  The result of \<open>JSON.parse\<close>: a \<open>SyntaxError\<close>, a falsy value (\<open>null\<close>, \<open>0\<close>, \<open>""\<close>,
  \<open>false\<close>), or a truthy value read through the interface \<open>UsageSummary\<close>.
\<close>

datatype json_parse = SyntaxError string | Falsy | Object UsageSummary

record config =
  apiToken :: "string option"
  proxy :: "string option"

record process_env =
  https_proxy :: "string option"
  HTTPS_PROXY :: "string option"
  http_proxy :: "string option"
  HTTP_PROXY :: "string option"

text \<open>
  Everything a call observes from outside the service: the settings section
  \<open>cursorUsageSummary\<close>, the process environment, the library functions \<open>new URL\<close>,
  \<open>new HttpsProxyAgent\<close> (\<open>Some e\<close>: the constructor throws \<open>e\<close>) and \<open>JSON.parse\<close>, the
  upstream (its answer to the \<open>k\<close>-th request the service has sent), and the two readings
  of \<open>Date.now()\<close>, at the cache check and at the cache write.
\<close>

record world =
  settings :: config
  environ :: process_env
  url_parses :: "string \<Rightarrow> bool"
  proxy_agent_error :: "string \<Rightarrow> string option"
  JSON_parse :: "string \<Rightarrow> json_parse"
  upstream :: "nat \<Rightarrow> request \<Rightarrow> outcome"
  now_check :: int
  now_store :: int

datatype notification = ErrorMessage string | WarningMessage string

text \<open>
  The service: its cache (a \<open>Map\<close> from key to entry), and the two traces of its effects,
  the requests handed to \<open>https.request\<close> and the messages shown to the user, oldest first.
\<close>

record state =
  cache :: "string \<rightharpoonup> cache_entry"
  sent :: "request list"
  shown :: "notification list"

definition CACHE_DURATION :: int where
  "CACHE_DURATION = 60 * 1000"

definition API_BASE_URL :: string where
  "API_BASE_URL = ''https://cursor.com''"

definition API_ENDPOINT :: string where
  "API_ENDPOINT = ''/api/usage-summary''"

definition cacheKey :: string where
  "cacheKey = ''usage-summary''"

definition initial :: state where
  "initial = \<lparr> cache = Map.empty, sent = [], shown = [] \<rparr>"

definition showMessage :: "notification \<Rightarrow> state \<Rightarrow> state" where
  "showMessage m s = s\<lparr> shown := shown s @ [m] \<rparr>"

section \<open>Transport\<close>

definition cookie_name :: string where
  "cookie_name = ''WorkosCursorSessionToken=''"

definition base_headers :: "(string \<times> string) list" where
  "base_headers =
     [(''User-Agent'', ''Cursor-Usage-Summary-Extension/1.0.0''),
      (''Accept'', ''application/json'')]"

definition request_headers :: "world \<Rightarrow> (string \<times> string) list" where
  "request_headers w =
     (case apiToken (settings w) of
        None \<Rightarrow> base_headers
      | Some t \<Rightarrow>
          if t = [] then base_headers
          else if startsWith t cookie_name then base_headers @ [(''Cookie'', t)]
          else base_headers @ [(''Cookie'', cookie_name @ t)])"

definition blank :: "string option \<Rightarrow> bool" where
  "blank p = (case p of None \<Rightarrow> True | Some u \<Rightarrow> u = [] \<or> trim u = [])"

definition proxy_url :: "world \<Rightarrow> string option" where
  "proxy_url w =
     (if blank (proxy (settings w))
      then or_str (https_proxy (environ w)) (or_str (HTTPS_PROXY (environ w))
             (or_str (http_proxy (environ w)) (or_str (HTTP_PROXY (environ w)) (Some []))))
      else proxy (settings w))"

definition getRequestOptions ::
  "world \<Rightarrow> state \<Rightarrow> (agent option \<times> (string \<times> string) list) \<times> state" where
  "getRequestOptions w s =
     (let proxyUrl = proxy_url w; headers = request_headers w in
      case proxyUrl of
        None \<Rightarrow> ((Some DirectAgent, headers), s)
      | Some u \<Rightarrow>
          if blank (Some u) then ((Some DirectAgent, headers), s)
          else (case proxy_agent_error w u of
                  None \<Rightarrow> ((Some (HttpsProxyAgent u), headers), s)
                | Some e \<Rightarrow>
                    ((None, headers),
                     showMessage
                       (ErrorMessage (''Cursor Usage: Failed to configure proxy: '' @ e)) s)))"

definition request_for :: "world \<Rightarrow> string \<Rightarrow> state \<Rightarrow> request" where
  "request_for w url s =
     \<lparr> req_url = url,
       req_headers = snd (fst (getRequestOptions w s)),
       req_agent = fst (fst (getRequestOptions w s)) \<rparr>"

definition is_redirect :: "int option \<Rightarrow> bool" where
  "is_redirect c = (case c of None \<Rightarrow> False | Some n \<Rightarrow> n \<noteq> 0 \<and> 300 \<le> n \<and> n < 400)"

definition redirectUrl :: "string \<Rightarrow> string" where
  "redirectUrl loc = (if startsWith loc ''http'' then loc else API_BASE_URL @ loc)"

function makeHttpsRequest ::
  "world \<Rightarrow> string \<Rightarrow> int \<Rightarrow> state \<Rightarrow> (js_error + string) \<times> state" where
  "makeHttpsRequest w url maxRedirects s =
     (let s1 = snd (getRequestOptions w s) in
      if \<not> url_parses w url then (Inl (Error ''Invalid URL''), s1)
      else
        let req = request_for w url s;
            s2 = s1\<lparr> sent := sent s1 @ [req] \<rparr>
        in case upstream w (length (sent s1)) req of
             RequestError e \<Rightarrow> (Inl e, s2)
           | RequestTimeout \<Rightarrow>
               (Inl (Error ''Request timeout - connection took too long''), s2)
           | Response res \<Rightarrow>
               if is_redirect (statusCode res) then
                 if \<not> truthy_str (location res)
                 then (Inl (Error ''Redirect without location header''), s2)
                 else if maxRedirects \<le> 0
                 then (Inl (Error ''Too many redirects - authentication likely failed''), s2)
                 else makeHttpsRequest w (redirectUrl (the (location res))) (maxRedirects - 1) s2
               else if statusCode res \<noteq> Some 200
               then (Inl (Error (''HTTP '' @ show_status (statusCode res) @ '': ''
                                  @ statusMessage res)), s2)
               else (case streamError res of
                       Some e \<Rightarrow> (Inl e, s2)
                     | None \<Rightarrow> (Inr (concat (chunks res)), s2)))"
  by pat_completeness auto
termination
  by (relation "measure (\<lambda>(w, url, maxRedirects, s). nat maxRedirects)") auto

declare makeHttpsRequest.simps [simp del]

section \<open>Usage cache and orchestrator\<close>

text \<open>
  The body of the \<open>try\<close> block. First the parsing and the structural check of the
  response text, each failure a thrown \<open>Error\<close>.
\<close>

definition parseResponse :: "world \<Rightarrow> string \<Rightarrow> js_error + UsageSummary" where
  "parseResponse w responseData =
     (case JSON_parse w responseData of
        SyntaxError m \<Rightarrow> Inl (Error ''Invalid JSON response from API'')
      | Falsy \<Rightarrow> Inl (Error ''Invalid response structure from API'')
      | Object parsedData \<Rightarrow>
          if individualUsage parsedData = None
          then Inl (Error ''Invalid response structure from API'')
          else Inr parsedData)"

text \<open>Then the whole block: fetch, parse and validate, store, return.\<close>

definition fetchAndCache :: "world \<Rightarrow> state \<Rightarrow> (js_error + UsageSummary) \<times> state" where
  "fetchAndCache w s =
     (case makeHttpsRequest w (API_BASE_URL @ API_ENDPOINT) 5 s of
        (Inl e, s1) \<Rightarrow> (Inl e, s1)
      | (Inr responseData, s1) \<Rightarrow>
          (case parseResponse w responseData of
             Inl e \<Rightarrow> (Inl e, s1)
           | Inr parsedData \<Rightarrow>
               (Inr parsedData,
                s1\<lparr> cache := (cache s1)(cacheKey \<mapsto>
                      \<lparr> data = parsedData, timestamp = now_store w \<rparr>) \<rparr>)))"

text \<open>The message the \<open>catch\<close> block builds from the text of an \<open>Error\<close>.\<close>

definition errorMessage :: "string \<Rightarrow> string" where
  "errorMessage m =
     ''Failed to fetch usage data from Cursor API: '' @
     (if str_includes m ''Too many redirects''
      then ''Redirect loop detected. Your API token may be invalid or expired.''
      else if str_includes m ''ECONNREFUSED''
      then ''Connection refused. Check if proxy is accessible.''
      else if str_includes m ''ENOTFOUND''
      then ''DNS resolution failed. Check network connectivity.''
      else if str_includes m ''timeout''
      then ''Request timed out. Check network connectivity and proxy settings.''
      else if str_includes m ''401''
      then ''Invalid or expired authentication token.''
      else if str_includes m ''403''
      then ''Access denied. The API token may not have the required permissions.''
      else if str_includes m ''404''
      then ''API endpoint not found.''
      else m)"

text \<open>The \<open>catch\<close> block: one error message, then the cached value or the mock data.\<close>

definition onFetchError ::
  "cache_entry option \<Rightarrow> js_error \<Rightarrow> state \<Rightarrow> (js_error + UsageSummary) \<times> state" where
  "onFetchError cached error s =
     (let s1 = (case error of
                  Error m \<Rightarrow> showMessage (ErrorMessage (''Cursor Usage: '' @ errorMessage m)) s
                | Thrown v \<Rightarrow>
                    showMessage (ErrorMessage (''Cursor Usage: Network error - '' @ v)) s)
      in case cached of
           Some c \<Rightarrow>
             (Inr (data c),
              showMessage (WarningMessage ''Cursor Usage: Using cached data due to API error'') s1)
         | None \<Rightarrow>
             (Inr getMockUsageData,
              showMessage (WarningMessage ''Cursor Usage: Using demo data'') s1))"

text \<open>The cache test of \<open>getUsageSummary\<close>: an entry exists and is younger than a minute.\<close>

definition fresh :: "world \<Rightarrow> cache_entry option \<Rightarrow> bool" where
  "fresh w cached =
     (case cached of None \<Rightarrow> False | Some c \<Rightarrow> now_check w - timestamp c < CACHE_DURATION)"

text \<open>
  \<open>getUsageSummary\<close>. The result is a sum so that a rejection of the returned promise
  would be a value \<open>Inl\<close>.
\<close>

definition getUsageSummary ::
  "world \<Rightarrow> bool \<Rightarrow> state \<Rightarrow> (js_error + UsageSummary) \<times> state" where
  "getUsageSummary w forceRefresh s =
     (let cached = cache s cacheKey in
      if \<not> forceRefresh \<and> fresh w cached
      then (Inr (data (the cached)), s)
      else if \<not> truthy_str (apiToken (settings w))
      then (Inr getMockUsageData,
            showMessage
              (WarningMessage ''Cursor Usage: No API token configured. Using mock data.'') s)
      else (case fetchAndCache w s of
              (Inr parsedData, s1) \<Rightarrow> (Inr parsedData, s1)
            | (Inl error, s1) \<Rightarrow> onFetchError cached error s1))"

definition clearCache :: "state \<Rightarrow> state" where
  "clearCache s = s\<lparr> cache := Map.empty \<rparr>"

definition updateApiToken :: "state \<Rightarrow> state" where
  "updateApiToken s = clearCache s"

definition testConnectivity :: "world \<Rightarrow> state \<Rightarrow> bool \<times> state" where
  "testConnectivity w s =
     (case makeHttpsRequest w (API_BASE_URL @ API_ENDPOINT) 5 s of
        (Inl e, s1) \<Rightarrow> (False, s1)
      | (Inr responseData, s1) \<Rightarrow>
          (case JSON_parse w responseData of
             SyntaxError m \<Rightarrow> (False, s1)
           | Falsy \<Rightarrow> (True, s1)
           | Object v \<Rightarrow> (True, s1)))"

text \<open>The operations a client of the service can invoke, and one step of the service.\<close>

datatype operation =
  GetUsageSummary bool | ClearCache | UpdateApiToken | TestConnectivity

fun perform :: "world \<Rightarrow> operation \<Rightarrow> state \<Rightarrow> state" where
  "perform w (GetUsageSummary forceRefresh) s = snd (getUsageSummary w forceRefresh s)"
| "perform w ClearCache s = clearCache s"
| "perform w UpdateApiToken s = updateApiToken s"
| "perform w TestConnectivity s = snd (testConnectivity w s)"

text \<open>Every summary resident in the cache has its \<open>individualUsage\<close> section.\<close>

definition cache_valid :: "state \<Rightarrow> bool" where
  "cache_valid s = (\<forall>e \<in> ran (cache s). individualUsage (data e) \<noteq> None)"

section \<open>Concrete worlds\<close>

text \<open>
  An upstream that answers the requests in order from a list and refuses the connection
  once the list is used up, a \<open>JSON.parse\<close> that knows four bodies, and a world built from
  a token and such a list: no proxy, every URL well formed, the clock at 100 s at the cache
  check and half a second later at the cache write.
\<close>

definition scripted :: "outcome list \<Rightarrow> nat \<Rightarrow> request \<Rightarrow> outcome" where
  "scripted answers k r =
     (if k < length answers then answers ! k
      else RequestError (Error ''connect ECONNREFUSED 127.0.0.1:443''))"

definition demo_parse :: "string \<Rightarrow> json_parse" where
  "demo_parse body =
     (if body = ''{mock}'' then Object getMockUsageData
      else if body = ''{}'' then Object (getMockUsageData\<lparr> individualUsage := None \<rparr>)
      else if body = ''null'' then Falsy
      else SyntaxError ''Unexpected token < in JSON at position 0'')"

definition demo_world :: "string option \<Rightarrow> outcome list \<Rightarrow> world" where
  "demo_world token answers =
     \<lparr> settings = \<lparr> apiToken = token, proxy = None \<rparr>,
       environ = \<lparr> https_proxy = None, HTTPS_PROXY = None,
                   http_proxy = None, HTTP_PROXY = None \<rparr>,
       url_parses = (\<lambda>u. True),
       proxy_agent_error = (\<lambda>u. None),
       JSON_parse = demo_parse,
       upstream = scripted answers,
       now_check = 100000,
       now_store = 100500 \<rparr>"

definition answer :: "int \<Rightarrow> string \<Rightarrow> string list \<Rightarrow> outcome" where
  "answer code message body =
     Response \<lparr> statusCode = Some code, statusMessage = message, location = None,
                chunks = body, streamError = None \<rparr>"

definition redirect_to :: "string \<Rightarrow> outcome" where
  "redirect_to loc =
     Response \<lparr> statusCode = Some 302, statusMessage = ''Found'', location = Some loc,
                chunks = [], streamError = None \<rparr>"

text \<open>A summary distinct from the mock data, cached at time 0 (stale) or at 90 s (fresh).\<close>

definition pro_summary :: UsageSummary where
  "pro_summary = getMockUsageData\<lparr> membershipType := ''pro'' \<rparr>"

definition cached_at :: "int \<Rightarrow> state" where
  "cached_at t = initial\<lparr> cache := [cacheKey \<mapsto> \<lparr> data = pro_summary, timestamp = t \<rparr>] \<rparr>"

text \<open>A summary whose three buckets all have \<open>limit = 0\<close>.\<close>

definition zero_bucket :: "rat \<Rightarrow> usage_bucket" where
  "zero_bucket u = \<lparr> enabled = True, used = Num u, limit = Num 0, remaining = Num 0 \<rparr>"

definition zero_limit_summary :: UsageSummary where
  "zero_limit_summary =
     getMockUsageData\<lparr>
       individualUsage := Some \<lparr> overall = Some (zero_bucket 794) \<rparr>,
       teamUsage := Some \<lparr> onDemand = Some (zero_bucket 0),
                            pooled = Some (zero_bucket 6175916) \<rparr> \<rparr>"

section \<open>Facts about the transport\<close>

lemmas demo_defs = demo_world_def scripted_def answer_def redirect_to_def demo_parse_def
  cached_at_def initial_def pro_summary_def

lemmas transport_defs = getRequestOptions_def request_for_def proxy_url_def blank_def
  or_str_def truthy_str_def request_headers_def showMessage_def is_redirect_def
  redirectUrl_def startsWith_def API_BASE_URL_def API_ENDPOINT_def show_status_def show_int_def
  cookie_name_def base_headers_def

text \<open>Building the request options never touches the cache or the list of requests.\<close>

lemma getRequestOptions_headers [simp]: "snd (fst (getRequestOptions w s)) = request_headers w"
  by (simp add: getRequestOptions_def Let_def split: option.splits)

lemma getRequestOptions_cache [simp]: "cache (snd (getRequestOptions w s)) = cache s"
  by (simp add: getRequestOptions_def Let_def showMessage_def split: option.splits)

lemma getRequestOptions_sent [simp]: "sent (snd (getRequestOptions w s)) = sent s"
  by (simp add: getRequestOptions_def Let_def showMessage_def split: option.splits)

lemma makeHttpsRequest_cache [simp]: "cache (snd (makeHttpsRequest w url n s)) = cache s"
proof (induction w url n s rule: makeHttpsRequest.induct)
  case (1 w url maxRedirects s)
  show ?case
    apply (subst makeHttpsRequest.simps)
    using 1
    by (auto simp: Let_def split: outcome.splits option.splits)
qed

lemma makeHttpsRequest_sent:
  "\<exists>rs. sent (snd (makeHttpsRequest w url n s)) = sent s @ rs \<and>
        (\<forall>r \<in> set rs. req_headers r = request_headers w)"
proof (induction w url n s rule: makeHttpsRequest.induct)
  case (1 w url maxRedirects s)
  show ?case
    apply (subst makeHttpsRequest.simps)
    using 1
    by (fastforce simp: Let_def request_for_def split: outcome.splits option.splits)
qed

lemma makeHttpsRequest_first:
  assumes "url_parses w url"
  shows "\<exists>rs. sent (snd (makeHttpsRequest w url n s)) = sent s @ request_for w url s # rs"
proof -
  let ?s1 = "snd (getRequestOptions w s)"
  let ?s2 = "?s1\<lparr>sent := sent ?s1 @ [request_for w url s]\<rparr>"
  show ?thesis
  proof (cases "upstream w (length (sent s)) (request_for w url s)")
    case (Response res)
    show ?thesis
    proof (cases "is_redirect (statusCode res) \<and> truthy_str (location res)
        \<and> \<not> n \<le> 0")
      case True
      obtain rs where
        "sent (snd (makeHttpsRequest w (redirectUrl (the (location res))) (n - 1) ?s2)) =
           sent ?s2 @ rs"
        using makeHttpsRequest_sent by blast
      then show ?thesis using assms Response True
        by (subst makeHttpsRequest.simps) (simp add: Let_def)
    next
      case False
      then show ?thesis using assms Response
        by (subst makeHttpsRequest.simps) (auto simp add: Let_def split: option.splits)
    qed
  qed (use assms in \<open>subst makeHttpsRequest.simps, simp add: Let_def\<close>)+
qed

lemma showMessage_sent [simp]: "sent (showMessage m s) = sent s"
  by (simp add: showMessage_def)

lemma showMessage_cache [simp]: "cache (showMessage m s) = cache s"
  by (simp add: showMessage_def)

text \<open>
  A run of \<open>n + 1\<close> redirects against a budget of \<open>n\<close>: every hop is followed, the last
  answer finds the budget at \<open>0\<close>, and \<open>n + 1\<close> requests have been sent.
\<close>

lemma redirect_chain_exhausts:
  assumes "\<And>k r. k < Suc n \<Longrightarrow>
             \<exists>res. upstream w (length (sent s) + k) r = Response res \<and>
                   is_redirect (statusCode res) \<and> truthy_str (location res) \<and>
                   url_parses w (redirectUrl (the (location res)))"
    and "url_parses w url"
  shows "fst (makeHttpsRequest w url (int n) s) =
           Inl (Error ''Too many redirects - authentication likely failed'') \<and>
         length (sent (snd (makeHttpsRequest w url (int n) s))) = length (sent s) + Suc n"
  using assms
proof (induction n arbitrary: url s)
  case 0
  from "0.prems"(1)[of 0 "request_for w url s"] obtain res where
    res: "upstream w (length (sent s)) (request_for w url s) = Response res"
      "is_redirect (statusCode res)" "truthy_str (location res)"
    by auto
  show ?case using res "0.prems"(2)
    by (subst (1 2) makeHttpsRequest.simps) (simp add: Let_def)
next
  case (Suc n)
  let ?s1 = "snd (getRequestOptions w s)"
  let ?s2 = "?s1\<lparr>sent := sent ?s1 @ [request_for w url s]\<rparr>"
  from Suc.prems(1)[of 0 "request_for w url s"] obtain res where
    res: "upstream w (length (sent s)) (request_for w url s) = Response res"
      "is_redirect (statusCode res)" "truthy_str (location res)"
      "url_parses w (redirectUrl (the (location res)))"
    by auto
  have step: "makeHttpsRequest w url (int (Suc n)) s =
              makeHttpsRequest w (redirectUrl (the (location res))) (int n) ?s2"
    using res Suc.prems(2) by (subst makeHttpsRequest.simps) (simp add: Let_def)
  have later: "\<exists>res. upstream w (length (sent ?s2) + k) r = Response res \<and>
                   is_redirect (statusCode res) \<and> truthy_str (location res) \<and>
                   url_parses w (redirectUrl (the (location res)))" if "k < Suc n" for k r
    using Suc.prems(1)[of "Suc k" r] that by simp
  from Suc.IH[of ?s2 "redirectUrl (the (location res))", OF later res(4)]
  show ?case unfolding step by simp
qed

text \<open>The budget is exact: five redirects followed by a 200 still deliver the body.\<close>

lemma five_redirects_then_body:
  "fst (makeHttpsRequest
          (demo_world (Some ''tok'')
             (replicate 5 (redirect_to ''/next'') @ [answer 200 ''OK'' [''{mock}'']]))
          (API_BASE_URL @ API_ENDPOINT) 5 initial) = Inr ''{mock}''"
  by (simp add: makeHttpsRequest.simps demo_defs transport_defs Let_def numeral_eq_Suc)

section \<open>Facts about the orchestrator\<close>

lemmas orchestrator_defs = getUsageSummary_def fetchAndCache_def parseResponse_def
  onFetchError_def fresh_def CACHE_DURATION_def cacheKey_def

lemma fetchAndCache_sent [simp]:
  "sent (snd (fetchAndCache w s)) =
     sent (snd (makeHttpsRequest w (API_BASE_URL @ API_ENDPOINT) 5 s))"
  by (simp add: fetchAndCache_def split: prod.splits sum.splits)

lemma onFetchError_sent [simp]: "sent (snd (onFetchError cached e s)) = sent s"
  by (simp add: onFetchError_def Let_def split: js_error.splits option.splits)

lemma onFetchError_cache [simp]: "cache (snd (onFetchError cached e s)) = cache s"
  by (simp add: onFetchError_def Let_def split: js_error.splits option.splits)

lemma testConnectivity_cache [simp]: "cache (snd (testConnectivity w s)) = cache s"
proof -
  obtain r s1 where m: "makeHttpsRequest w (API_BASE_URL @ API_ENDPOINT) 5 s = (r, s1)"
    by (cases "makeHttpsRequest w (API_BASE_URL @ API_ENDPOINT) 5 s")
  have c: "cache s1 = cache s"
    using makeHttpsRequest_cache[of w "API_BASE_URL @ API_ENDPOINT" 5 s] m by simp
  show ?thesis using m c
    by (auto simp: testConnectivity_def split: sum.splits json_parse.splits)
qed

text \<open>A call either leaves the cache alone or stores one validated summary under the key.\<close>

lemma getUsageSummary_cache_cases:
  "cache (snd (getUsageSummary w forceRefresh s)) = cache s \<or>
   (\<exists>p. individualUsage p \<noteq> None \<and>
      cache (snd (getUsageSummary w forceRefresh s)) =
        (cache s)(cacheKey \<mapsto> \<lparr> data = p, timestamp = now_store w \<rparr>))"
proof -
  obtain r s1 where m: "makeHttpsRequest w (API_BASE_URL @ API_ENDPOINT) 5 s = (r, s1)"
    by (cases "makeHttpsRequest w (API_BASE_URL @ API_ENDPOINT) 5 s")
  have c: "cache s1 = cache s"
    using makeHttpsRequest_cache[of w "API_BASE_URL @ API_ENDPOINT" 5 s] m by simp
  show ?thesis
    using m c
    by (auto simp: getUsageSummary_def Let_def fetchAndCache_def parseResponse_def
        split: sum.splits json_parse.splits if_splits)
qed

lemma ran_upd_cases: "e' \<in> ran (m(k \<mapsto> e)) \<Longrightarrow> e' = e \<or> e' \<in> ran m"
  by (auto simp: ran_def split: if_splits)

lemma perform_cache_valid:
  assumes "cache_valid s"
  shows "cache_valid (perform w op s)"
proof (cases op)
  case (GetUsageSummary forceRefresh)
  from getUsageSummary_cache_cases[of w forceRefresh s] show ?thesis
  proof
    assume "cache (snd (getUsageSummary w forceRefresh s)) = cache s"
    with assms GetUsageSummary show ?thesis by (simp add: cache_valid_def)
  next
    assume "\<exists>p. individualUsage p \<noteq> None \<and>
      cache (snd (getUsageSummary w forceRefresh s)) =
        (cache s)(cacheKey \<mapsto> \<lparr> data = p, timestamp = now_store w \<rparr>)"
    then obtain p where p: "individualUsage p \<noteq> None"
      "cache (snd (getUsageSummary w forceRefresh s)) =
        (cache s)(cacheKey \<mapsto> \<lparr> data = p, timestamp = now_store w \<rparr>)" by blast
    show ?thesis
      unfolding cache_valid_def
    proof
      fix e assume e: "e \<in> ran (cache (perform w op s))"
      have "cache (perform w op s) =
          (cache s)(cacheKey \<mapsto> \<lparr> data = p, timestamp = now_store w \<rparr>)"
        using GetUsageSummary p(2) by simp
      with e have "e \<in> ran ((cache s)(cacheKey \<mapsto> \<lparr> data = p, timestamp = now_store w \<rparr>))"
        by simp
      from ran_upd_cases[OF this]
      have "e = \<lparr> data = p, timestamp = now_store w \<rparr> \<or> e \<in> ran (cache s)" .
      with p(1) assms show "individualUsage (data e) \<noteq> None"
        by (auto simp: cache_valid_def)
    qed
  qed
next
  case ClearCache
  then show ?thesis by (simp add: cache_valid_def clearCache_def)
next
  case UpdateApiToken
  then show ?thesis by (simp add: cache_valid_def clearCache_def updateApiToken_def)
next
  case TestConnectivity
  with assms show ?thesis by (simp add: cache_valid_def)
qed

text \<open>Hence the invariant holds after any sequence of operations, in any worlds.\<close>

lemma reachable_cache_valid:
  "cache_valid (fold (\<lambda>(w, op). perform w op) steps initial)"
proof -
  have "cache_valid s \<Longrightarrow> cache_valid (fold (\<lambda>(w, op). perform w op) steps s)" for s
    by (induction steps arbitrary: s) (simp_all add: perform_cache_valid split: prod.splits)
  moreover have "cache_valid initial" by (simp add: cache_valid_def initial_def)
  ultimately show ?thesis by blast
qed

section \<open>Facts about the accessors\<close>

lemma cookie_of_token:
  assumes "apiToken (settings w) = Some t" and "t \<noteq> []"
  shows "map_of (request_headers w) ''Cookie'' =
           Some (if startsWith t cookie_name then t else cookie_name @ t)"
  using assms by (simp add: request_headers_def base_headers_def)

lemma percentage_of_zero_limit:
  assumes "limit b = Num 0"
  shows "percentage_of b =
     (case used b of
        Num a \<Rightarrow> if a = 0 then NaN else if 0 < a then PInf else NInf
      | PInf \<Rightarrow> PInf
      | NInf \<Rightarrow> NInf
      | NaN \<Rightarrow> NaN)"
  using assms by (cases "used b") (simp_all add: percentage_of_def)

lemma percentage_of_zero_limit_range:
  assumes "limit b = Num 0"
  shows "percentage_of b \<in> {NaN, PInf, NInf}"
    and "percentage_of b = NaN \<longleftrightarrow> used b = Num 0 \<or> used b = NaN"
  using assms by (cases "used b"; simp add: percentage_of_def)+

section \<open>Claims\<close>

text \<open>
  C1. \<open>getUsageSummary\<close> is total: whatever the flag, the transport outcome and the response
  body, it returns a summary and never rejects. When a fetch is attempted and fails (the
  transport fails, or the body does not parse, or the parsed value is falsy or lacks
  \<open>individualUsage\<close>), the result is the data of the entry that was in the cache at the
  start of the call, whatever its age, and the mock data when there was none.
\<close>

theorem getUsageSummary_total:
  "(\<exists>v. fst (getUsageSummary w forceRefresh s) = Inr v) \<and>
   ((forceRefresh \<or> \<not> fresh w (cache s cacheKey)) \<and> truthy_str (apiToken (settings w)) \<longrightarrow>
      ((\<exists>e. fst (makeHttpsRequest w (API_BASE_URL @ API_ENDPOINT) 5 s) = Inl e) \<or>
       (\<exists>body. fst (makeHttpsRequest w (API_BASE_URL @ API_ENDPOINT) 5 s) = Inr body \<and>
          (case JSON_parse w body of
             SyntaxError m \<Rightarrow> True
           | Falsy \<Rightarrow> True
           | Object p \<Rightarrow> individualUsage p = None)) \<longrightarrow>
       fst (getUsageSummary w forceRefresh s) =
         Inr (case cache s cacheKey of Some c \<Rightarrow> data c | None \<Rightarrow> getMockUsageData)))"
  by (auto simp: getUsageSummary_def Let_def fetchAndCache_def onFetchError_def parseResponse_def
        fresh_def
      split: prod.splits sum.splits option.splits json_parse.splits)

theorem getUsageSummary_total_witness:
  "fst (makeHttpsRequest (demo_world (Some ''tok'') [answer 500 ''Internal Server Error'' []])
          (API_BASE_URL @ API_ENDPOINT) 5 (cached_at 0)) =
     Inl (Error ''HTTP 500: Internal Server Error'') \<and>
   fst (getUsageSummary (demo_world (Some ''tok'') [answer 500 ''Internal Server Error'' []])
          False (cached_at 0)) = Inr pro_summary \<and>
   fst (makeHttpsRequest (demo_world (Some ''tok'') [answer 200 ''OK'' [''<html>'']])
          (API_BASE_URL @ API_ENDPOINT) 5 initial) = Inr ''<html>'' \<and>
   fst (getUsageSummary (demo_world (Some ''tok'') [answer 200 ''OK'' [''<html>'']])
          True initial) = Inr getMockUsageData \<and>
   fst (makeHttpsRequest (demo_world (Some ''tok'') [answer 200 ''OK'' [''{}'']])
          (API_BASE_URL @ API_ENDPOINT) 5 (cached_at 0)) = Inr ''{}'' \<and>
   fst (getUsageSummary (demo_world (Some ''tok'') [answer 200 ''OK'' [''{}'']])
          True (cached_at 0)) = Inr pro_summary"
proof -
  let ?A = "demo_world (Some ''tok'') [answer 500 ''Internal Server Error'' []]"
  let ?B = "demo_world (Some ''tok'') [answer 200 ''OK'' [''<html>'']]"
  let ?C = "demo_world (Some ''tok'') [answer 200 ''OK'' [''{}'']]"
  have a: "fst (makeHttpsRequest ?A (API_BASE_URL @ API_ENDPOINT) 5 (cached_at 0)) =
     Inl (Error ''HTTP 500: Internal Server Error'')"
    by (simp add: makeHttpsRequest.simps demo_defs transport_defs Let_def show_nat.simps)
  have b: "fst (makeHttpsRequest ?B (API_BASE_URL @ API_ENDPOINT) 5 initial) = Inr ''<html>''"
    by (simp add: makeHttpsRequest.simps demo_defs transport_defs Let_def)
  have c: "fst (makeHttpsRequest ?C (API_BASE_URL @ API_ENDPOINT) 5 (cached_at 0)) = Inr ''{}''"
    by (simp add: makeHttpsRequest.simps demo_defs transport_defs Let_def)
  have ra: "fst (getUsageSummary ?A False (cached_at 0)) = Inr pro_summary"
    using getUsageSummary_total[of ?A False "cached_at 0"] a
    by (simp add: demo_defs fresh_def CACHE_DURATION_def truthy_str_def cacheKey_def)
  have rb: "fst (getUsageSummary ?B True initial) = Inr getMockUsageData"
    using getUsageSummary_total[of ?B True initial] b
    by (simp add: demo_defs truthy_str_def)
  have rc: "fst (getUsageSummary ?C True (cached_at 0)) = Inr pro_summary"
    using getUsageSummary_total[of ?C True "cached_at 0"] c
    by (simp add: demo_defs truthy_str_def)
  from a b c ra rb rc show ?thesis by simp
qed

text \<open>
  C3. Six redirects in a row (each with a \<open>Location\<close> that parses) against the default
  budget of five: the transport sends six requests and fails with the too-many-redirects
  error; with a token configured and an entry in the cache, \<open>getUsageSummary\<close> returns the
  data of that entry.
\<close>

theorem six_redirects_fall_back_to_cache:
  assumes chain: "\<And>k r. k < 6 \<Longrightarrow>
             \<exists>res. upstream w (length (sent s) + k) r = Response res \<and>
                   is_redirect (statusCode res) \<and> truthy_str (location res) \<and>
                   url_parses w (redirectUrl (the (location res)))"
    and endpoint: "url_parses w (API_BASE_URL @ API_ENDPOINT)"
    and token: "truthy_str (apiToken (settings w))"
    and cached: "cache s cacheKey = Some c"
  shows "fst (makeHttpsRequest w (API_BASE_URL @ API_ENDPOINT) 5 s) =
           Inl (Error ''Too many redirects - authentication likely failed'') \<and>
         length (sent (snd (makeHttpsRequest w (API_BASE_URL @ API_ENDPOINT) 5 s))) =
           length (sent s) + 6 \<and>
         fst (getUsageSummary w forceRefresh s) = Inr (data c)"
proof -
  have ch: "\<exists>res. upstream w (length (sent s) + k) r = Response res \<and>
                   is_redirect (statusCode res) \<and> truthy_str (location res) \<and>
                   url_parses w (redirectUrl (the (location res)))" if "k < Suc 5" for k r
    using chain[of k r] that by simp
  from redirect_chain_exhausts[where n=5 and w=w and s=s, OF ch endpoint]
  have fetch: "fst (makeHttpsRequest w (API_BASE_URL @ API_ENDPOINT) 5 s) =
           Inl (Error ''Too many redirects - authentication likely failed'')"
    and count: "length (sent (snd (makeHttpsRequest w (API_BASE_URL @ API_ENDPOINT) 5 s))) =
           length (sent s) + 6"
    by simp_all
  have "fst (getUsageSummary w forceRefresh s) = Inr (data c)"
    using fetch token cached
    by (auto simp: getUsageSummary_def Let_def fetchAndCache_def onFetchError_def
        split: prod.splits sum.splits)
  with fetch count show ?thesis by simp
qed

theorem six_redirects_fall_back_to_cache_witness:
  "fst (makeHttpsRequest (demo_world (Some ''tok'') (replicate 6 (redirect_to ''/login'')))
          (API_BASE_URL @ API_ENDPOINT) 5 (cached_at 0)) =
     Inl (Error ''Too many redirects - authentication likely failed'') \<and>
   length (sent (snd (makeHttpsRequest
          (demo_world (Some ''tok'') (replicate 6 (redirect_to ''/login'')))
          (API_BASE_URL @ API_ENDPOINT) 5 (cached_at 0)))) = 6 \<and>
   fst (getUsageSummary (demo_world (Some ''tok'') (replicate 6 (redirect_to ''/login'')))
          True (cached_at 0)) = Inr pro_summary \<and>
   pro_summary \<noteq> getMockUsageData"
proof -
  let ?w = "demo_world (Some ''tok'') (replicate 6 (redirect_to ''/login''))"
  let ?s = "cached_at 0"
  have chain: "\<exists>res. upstream ?w (length (sent ?s) + k) r = Response res \<and>
                   is_redirect (statusCode res) \<and> truthy_str (location res) \<and>
                   url_parses ?w (redirectUrl (the (location res)))" if "k < 6" for k r
    using that by (simp add: demo_defs is_redirect_def truthy_str_def)
  have endpoint: "url_parses ?w (API_BASE_URL @ API_ENDPOINT)"
    by (simp add: demo_defs)
  have token: "truthy_str (apiToken (settings ?w))"
    by (simp add: demo_defs truthy_str_def)
  have cached: "cache ?s cacheKey = Some \<lparr> data = pro_summary, timestamp = 0 \<rparr>"
    by (simp add: cached_at_def)
  have "pro_summary \<noteq> getMockUsageData"
    by (simp add: pro_summary_def getMockUsageData_def)
  with six_redirects_fall_back_to_cache[of ?w ?s _ True, OF chain endpoint token cached]
  show ?thesis by (simp add: cached_at_def initial_def)
qed

text \<open>
  C4. \<open>getUsageSummary(false)\<close> with an entry in the cache younger than 60 seconds returns
  the data of that entry and leaves the whole state as it was: no request is sent, no
  message shown.
\<close>

theorem fresh_cache_hit:
  assumes "cache s cacheKey = Some c"
    and "now_check w - timestamp c < 60 * 1000"
  shows "getUsageSummary w False s = (Inr (data c), s)"
  using assms by (simp add: getUsageSummary_def fresh_def CACHE_DURATION_def)

theorem fresh_cache_hit_witness:
  "cache (cached_at 90000) cacheKey = Some \<lparr> data = pro_summary, timestamp = 90000 \<rparr> \<and>
   now_check (demo_world (Some ''tok'') []) - 90000 < 60 * 1000 \<and>
   getUsageSummary (demo_world (Some ''tok'') []) False (cached_at 90000) =
     (Inr pro_summary, cached_at 90000)"
  using fresh_cache_hit[of "cached_at 90000" "\<lparr> data = pro_summary, timestamp = 90000 \<rparr>"
      "demo_world (Some ''tok'') []"]
  by (simp add: cached_at_def demo_world_def)

text \<open>
  C5 (as the code has it). \<open>getUsageSummary(true)\<close> with a token configured sends a request
  to the endpoint whatever the cache holds, fresh entry or not. (The claim without the
  token fails: the call returns the mock data before any request.)
\<close>

theorem forced_refresh_sends_request:
  assumes "truthy_str (apiToken (settings w))"
    and "url_parses w (API_BASE_URL @ API_ENDPOINT)"
  shows "\<exists>rs. sent (snd (getUsageSummary w True s)) =
           sent s @ request_for w (API_BASE_URL @ API_ENDPOINT) s # rs"
proof -
  obtain rs where
    "sent (snd (makeHttpsRequest w (API_BASE_URL @ API_ENDPOINT) 5 s)) =
       sent s @ request_for w (API_BASE_URL @ API_ENDPOINT) s # rs"
    using makeHttpsRequest_first[OF assms(2)] by blast
  moreover have "sent (snd (getUsageSummary w True s)) =
      sent (snd (fetchAndCache w s))"
    using assms(1)
    by (cases "fetchAndCache w s") (auto simp: getUsageSummary_def Let_def split: sum.splits)
  ultimately show ?thesis by simp
qed

text \<open>With no token, a forced refresh sends nothing.\<close>

theorem forced_refresh_without_token_counterexample:
  "sent (snd (getUsageSummary (demo_world None [answer 200 ''OK'' [''{mock}'']]) True initial)) = []"
  by (simp add: getUsageSummary_def demo_defs truthy_str_def showMessage_def Let_def)

theorem forced_refresh_sends_request_witness:
  "fresh (demo_world (Some ''tok'') [answer 200 ''OK'' [''{mock}'']])
     (cache (cached_at 90000) cacheKey) \<and>
   sent (cached_at 90000) = [] \<and>
   map req_url (sent (snd (getUsageSummary (demo_world (Some ''tok'') [answer 200 ''OK'' [''{mock}'']])
      True (cached_at 90000)))) = [''https://cursor.com/api/usage-summary'']"
proof -
  let ?w = "demo_world (Some ''tok'') [answer 200 ''OK'' [''{mock}'']]"
  have 1: "truthy_str (apiToken (settings ?w))" by (simp add: demo_defs truthy_str_def)
  have 2: "url_parses ?w (API_BASE_URL @ API_ENDPOINT)" by (simp add: demo_defs)
  have 3: "length (sent (snd (getUsageSummary ?w True (cached_at 90000)))) = 1"
    by (simp add: orchestrator_defs makeHttpsRequest.simps demo_defs transport_defs Let_def)
  from forced_refresh_sends_request[OF 1 2, of "cached_at 90000"] obtain rs where
    rs: "sent (snd (getUsageSummary ?w True (cached_at 90000))) =
        sent (cached_at 90000) @ request_for ?w (API_BASE_URL @ API_ENDPOINT) (cached_at 90000) # rs"
    by blast
  with 3 have "rs = []" by (simp add: cached_at_def initial_def)
  with rs show ?thesis
    by (simp add: cached_at_def initial_def fresh_def CACHE_DURATION_def request_for_def
        demo_world_def API_BASE_URL_def API_ENDPOINT_def)
qed

text \<open>
  C6. With no token configured (\<open>undefined\<close> or the empty string) and no fresh cache hit,
  \<open>getUsageSummary\<close> returns the mock data, with \<open>used = 794\<close> and \<open>limit = 5000\<close> in
  \<open>individualUsage.overall\<close>, sends no request and leaves the cache alone.
\<close>

theorem no_token_returns_placeholder:
  assumes "\<not> truthy_str (apiToken (settings w))"
    and "forceRefresh \<or> \<not> fresh w (cache s cacheKey)"
  shows "fst (getUsageSummary w forceRefresh s) = Inr getMockUsageData \<and>
         sent (snd (getUsageSummary w forceRefresh s)) = sent s \<and>
         cache (snd (getUsageSummary w forceRefresh s)) = cache s \<and>
         individualUsage getMockUsageData =
           Some \<lparr> overall = Some \<lparr> enabled = True, used = Num 794, limit = Num 5000,
                                    remaining = Num 4206 \<rparr> \<rparr>"
  using assms by (auto simp: getUsageSummary_def Let_def getMockUsageData_def)

theorem no_token_returns_placeholder_witness:
  "\<not> truthy_str (apiToken (settings (demo_world (Some []) [answer 200 ''OK'' [''{mock}'']]))) \<and>
   \<not> fresh (demo_world (Some []) [answer 200 ''OK'' [''{mock}'']]) (cache (cached_at 0) cacheKey) \<and>
   fst (getUsageSummary (demo_world (Some []) [answer 200 ''OK'' [''{mock}'']]) False (cached_at 0))
     = Inr getMockUsageData \<and>
   sent (snd (getUsageSummary (demo_world (Some []) [answer 200 ''OK'' [''{mock}'']]) False
     (cached_at 0))) = []"
  using no_token_returns_placeholder[of "demo_world (Some []) [answer 200 ''OK'' [''{mock}'']]"
      False "cached_at 0"]
  by (simp add: demo_defs truthy_str_def fresh_def CACHE_DURATION_def)

text \<open>
  C7. With a token configured, the \<open>Cookie\<close> header is the token itself when it starts with
  \<open>WorkosCursorSessionToken=\<close> and that name followed by the token otherwise, and every
  request the transport sends along a redirect chain carries this same header (the
  settings being the same throughout the call).
\<close>

theorem cookie_on_every_hop:
  assumes "apiToken (settings w) = Some t" and "t \<noteq> []"
  shows "map_of (snd (fst (getRequestOptions w s))) ''Cookie'' =
           Some (if startsWith t ''WorkosCursorSessionToken='' then t
                 else ''WorkosCursorSessionToken='' @ t) \<and>
         (\<exists>rs. sent (snd (makeHttpsRequest w url maxRedirects s)) = sent s @ rs \<and>
            (\<forall>r \<in> set rs. map_of (req_headers r) ''Cookie'' =
               Some (if startsWith t ''WorkosCursorSessionToken='' then t
                     else ''WorkosCursorSessionToken='' @ t)))"
proof -
  have c: "map_of (request_headers w) ''Cookie'' =
      Some (if startsWith t ''WorkosCursorSessionToken='' then t
            else ''WorkosCursorSessionToken='' @ t)"
    using cookie_of_token[OF assms] by (simp add: cookie_name_def)
  obtain rs where "sent (snd (makeHttpsRequest w url maxRedirects s)) = sent s @ rs"
    and "\<forall>r \<in> set rs. req_headers r = request_headers w"
    using makeHttpsRequest_sent by blast
  with c show ?thesis by auto
qed

theorem cookie_on_every_hop_witness:
  "map (\<lambda>r. map_of (req_headers r) ''Cookie'')
     (sent (snd (makeHttpsRequest
        (demo_world (Some ''tok'')
           [redirect_to ''/a'', redirect_to ''https://cursor.com/b'', redirect_to ''/c'',
            answer 200 ''OK'' [''{mock}'']])
        (API_BASE_URL @ API_ENDPOINT) 5 initial))) =
     replicate 4 (Some ''WorkosCursorSessionToken=tok'') \<and>
   map_of (snd (fst (getRequestOptions
        (demo_world (Some ''WorkosCursorSessionToken=abc'') []) initial))) ''Cookie'' =
     Some ''WorkosCursorSessionToken=abc''"
proof -
  let ?w = "demo_world (Some ''tok'')
           [redirect_to ''/a'', redirect_to ''https://cursor.com/b'', redirect_to ''/c'',
            answer 200 ''OK'' [''{mock}'']]"
  let ?v = "demo_world (Some ''WorkosCursorSessionToken=abc'') []"
  have n: "length (sent (snd (makeHttpsRequest ?w (API_BASE_URL @ API_ENDPOINT) 5 initial))) = 4"
    by (simp add: makeHttpsRequest.simps demo_defs transport_defs Let_def)
  have tok: "apiToken (settings ?w) = Some ''tok''" "''tok'' \<noteq> []"
    by (simp_all add: demo_world_def)
  from cookie_on_every_hop[OF tok, of initial "API_BASE_URL @ API_ENDPOINT" 5]
  obtain rs where rs: "sent (snd (makeHttpsRequest ?w (API_BASE_URL @ API_ENDPOINT) 5 initial)) = rs"
    and all: "\<forall>r \<in> set rs. map_of (req_headers r) ''Cookie'' = Some ''WorkosCursorSessionToken=tok''"
    by (auto simp: initial_def startsWith_def)
  from n rs have "length rs = 4" by simp
  with all have "map (\<lambda>r. map_of (req_headers r) ''Cookie'') rs =
      replicate 4 (Some ''WorkosCursorSessionToken=tok'')"
    by (intro replicate_eqI) auto
  moreover have "map_of (snd (fst (getRequestOptions ?v initial))) ''Cookie'' =
     Some ''WorkosCursorSessionToken=abc''"
    using cookie_on_every_hop[of ?v "''WorkosCursorSessionToken=abc''" initial]
    by (simp add: demo_world_def startsWith_def)
  ultimately show ?thesis using rs by simp
qed

text \<open>
  C8 (as the code has it). A response with status 200 whose body stream ends without error
  yields the concatenation of its chunks; a response whose status is neither 3xx nor 200
  yields the error \<open>HTTP <code>: <message>\<close>. (The claim for every 2xx status fails: only
  200 is accepted.)
\<close>

theorem status_200_body_else_http_error:
  assumes "url_parses w url"
    and "upstream w (length (sent s)) (request_for w url s) = Response res"
  shows "(statusCode res = Some 200 \<and> streamError res = None \<longrightarrow>
            fst (makeHttpsRequest w url maxRedirects s) = Inr (concat (chunks res))) \<and>
         (\<not> is_redirect (statusCode res) \<and> statusCode res \<noteq> Some 200 \<longrightarrow>
            fst (makeHttpsRequest w url maxRedirects s) =
              Inl (Error (''HTTP '' @ show_status (statusCode res) @ '': '' @ statusMessage res)))"
  using assms
  by (subst (1 2) makeHttpsRequest.simps) (simp add: Let_def is_redirect_def)

text \<open>A 201 with a valid body is rejected like any other status that is not 200.\<close>

theorem status_201_counterexample:
  "fst (makeHttpsRequest (demo_world (Some ''tok'') [answer 201 ''Created'' [''{mock}'']])
          (API_BASE_URL @ API_ENDPOINT) 5 initial) = Inl (Error ''HTTP 201: Created'')"
  by (simp add: makeHttpsRequest.simps demo_defs transport_defs Let_def show_nat.simps)

theorem status_200_body_else_http_error_witness:
  "fst (makeHttpsRequest (demo_world (Some ''tok'') [answer 200 ''OK'' [''{mo'', ''ck}'']])
          (API_BASE_URL @ API_ENDPOINT) 5 initial) = Inr ''{mock}'' \<and>
   fst (makeHttpsRequest (demo_world (Some ''tok'') [answer 404 ''Not Found'' [''gone'']])
          (API_BASE_URL @ API_ENDPOINT) 5 initial) = Inl (Error ''HTTP 404: Not Found'')"
proof -
  let ?a = "demo_world (Some ''tok'') [answer 200 ''OK'' [''{mo'', ''ck}'']]"
  let ?b = "demo_world (Some ''tok'') [answer 404 ''Not Found'' [''gone'']]"
  let ?ra = "\<lparr> statusCode = Some 200, statusMessage = ''OK'', location = None,
                chunks = [''{mo'', ''ck}''], streamError = None \<rparr>"
  let ?rb = "\<lparr> statusCode = Some 404, statusMessage = ''Not Found'', location = None,
                chunks = [''gone''], streamError = None \<rparr>"
  have a: "url_parses ?a (API_BASE_URL @ API_ENDPOINT)"
      "upstream ?a (length (sent initial)) (request_for ?a (API_BASE_URL @ API_ENDPOINT) initial)
        = Response ?ra"
    by (simp_all add: demo_defs)
  have b: "url_parses ?b (API_BASE_URL @ API_ENDPOINT)"
      "upstream ?b (length (sent initial)) (request_for ?b (API_BASE_URL @ API_ENDPOINT) initial)
        = Response ?rb"
    by (simp_all add: demo_defs)
  have "show_status (Some 404) = ''404''"
    by (simp add: show_status_def show_int_def show_nat.simps)
  with status_200_body_else_http_error[OF a, of 5] status_200_body_else_http_error[OF b, of 5]
  show ?thesis by (simp add: is_redirect_def)
qed

text \<open>
  C9. \<open>getUsageSummary\<close> changes the cache only when the transport returned a body that
  parsed to a value with \<open>individualUsage\<close>; the change is then the replacement of the entry
  under the key by a new entry (that value, the time of the write), and this value is the
  result. After a transport error, a parse error or a failed structural check the cache is
  as it was; after an attempted fetch that succeeds the entry is written.
\<close>

theorem cache_written_only_by_validated_fetch:
  "(cache (snd (getUsageSummary w forceRefresh s)) \<noteq> cache s \<longrightarrow>
      (\<exists>body p. fst (makeHttpsRequest w (API_BASE_URL @ API_ENDPOINT) 5 s) = Inr body \<and>
         JSON_parse w body = Object p \<and> individualUsage p \<noteq> None \<and>
         fst (getUsageSummary w forceRefresh s) = Inr p \<and>
         cache (snd (getUsageSummary w forceRefresh s)) =
           (cache s)(cacheKey \<mapsto> \<lparr> data = p, timestamp = now_store w \<rparr>))) \<and>
   ((\<exists>e. fst (makeHttpsRequest w (API_BASE_URL @ API_ENDPOINT) 5 s) = Inl e) \<longrightarrow>
      cache (snd (getUsageSummary w forceRefresh s)) = cache s) \<and>
   (\<forall>body. fst (makeHttpsRequest w (API_BASE_URL @ API_ENDPOINT) 5 s) = Inr body \<and>
      (case JSON_parse w body of
         SyntaxError m \<Rightarrow> True
       | Falsy \<Rightarrow> True
       | Object p \<Rightarrow> individualUsage p = None) \<longrightarrow>
      cache (snd (getUsageSummary w forceRefresh s)) = cache s) \<and>
   (\<forall>body p. (forceRefresh \<or> \<not> fresh w (cache s cacheKey)) \<and>
      truthy_str (apiToken (settings w)) \<and>
      fst (makeHttpsRequest w (API_BASE_URL @ API_ENDPOINT) 5 s) = Inr body \<and>
      JSON_parse w body = Object p \<and> individualUsage p \<noteq> None \<longrightarrow>
      cache (snd (getUsageSummary w forceRefresh s)) =
        (cache s)(cacheKey \<mapsto> \<lparr> data = p, timestamp = now_store w \<rparr>))"
proof -
  obtain r s1 where m: "makeHttpsRequest w (API_BASE_URL @ API_ENDPOINT) 5 s = (r, s1)"
    by (cases "makeHttpsRequest w (API_BASE_URL @ API_ENDPOINT) 5 s")
  have c: "cache s1 = cache s"
    using makeHttpsRequest_cache[of w "API_BASE_URL @ API_ENDPOINT" 5 s] m by simp
  show ?thesis
    using m c
    by (auto simp: getUsageSummary_def Let_def fetchAndCache_def parseResponse_def
        split: sum.splits json_parse.splits if_splits)
qed

theorem cache_written_only_by_validated_fetch_witness:
  "cache (snd (getUsageSummary (demo_world (Some ''tok'') [answer 200 ''OK'' [''{mock}'']])
      False (cached_at 0))) =
     (cache (cached_at 0))(cacheKey \<mapsto> \<lparr> data = getMockUsageData, timestamp = 100500 \<rparr>) \<and>
   cache (snd (getUsageSummary (demo_world (Some ''tok'') [answer 503 ''Service Unavailable'' []])
      True (cached_at 0))) = cache (cached_at 0) \<and>
   cache (snd (getUsageSummary (demo_world (Some ''tok'') [answer 200 ''OK'' [''<html>'']])
      True (cached_at 0))) = cache (cached_at 0) \<and>
   cache (snd (getUsageSummary (demo_world (Some ''tok'') [answer 200 ''OK'' [''{}'']])
      True (cached_at 0))) = cache (cached_at 0)"
proof -
  let ?ok = "demo_world (Some ''tok'') [answer 200 ''OK'' [''{mock}'']]"
  let ?down = "demo_world (Some ''tok'') [answer 503 ''Service Unavailable'' []]"
  let ?html = "demo_world (Some ''tok'') [answer 200 ''OK'' [''<html>'']]"
  let ?bare = "demo_world (Some ''tok'') [answer 200 ''OK'' [''{}'']]"
  let ?ep = "API_BASE_URL @ API_ENDPOINT"
  have ok: "fst (makeHttpsRequest ?ok ?ep 5 (cached_at 0)) = Inr ''{mock}''"
    by (simp add: makeHttpsRequest.simps demo_defs transport_defs Let_def)
  have down: "fst (makeHttpsRequest ?down ?ep 5 (cached_at 0)) =
      Inl (Error ''HTTP 503: Service Unavailable'')"
    by (simp add: makeHttpsRequest.simps demo_defs transport_defs Let_def show_nat.simps)
  have html: "fst (makeHttpsRequest ?html ?ep 5 (cached_at 0)) = Inr ''<html>''"
    by (simp add: makeHttpsRequest.simps demo_defs transport_defs Let_def)
  have bare: "fst (makeHttpsRequest ?bare ?ep 5 (cached_at 0)) = Inr ''{}''"
    by (simp add: makeHttpsRequest.simps demo_defs transport_defs Let_def)
  have 1: "cache (snd (getUsageSummary ?ok False (cached_at 0))) =
     (cache (cached_at 0))(cacheKey \<mapsto> \<lparr> data = getMockUsageData, timestamp = 100500 \<rparr>)"
    using cache_written_only_by_validated_fetch[of ?ok False "cached_at 0"] ok
    by (simp add: demo_defs fresh_def CACHE_DURATION_def truthy_str_def getMockUsageData_def)
  have 2: "cache (snd (getUsageSummary ?down True (cached_at 0))) = cache (cached_at 0)"
    using cache_written_only_by_validated_fetch[of ?down True "cached_at 0"] down
    by simp
  have 3: "cache (snd (getUsageSummary ?html True (cached_at 0))) = cache (cached_at 0)"
    using cache_written_only_by_validated_fetch[of ?html True "cached_at 0"] html
    by (simp add: demo_defs)
  have 4: "cache (snd (getUsageSummary ?bare True (cached_at 0))) = cache (cached_at 0)"
    using cache_written_only_by_validated_fetch[of ?bare True "cached_at 0"] bare
    by (simp add: demo_defs)
  from 1 2 3 4 show ?thesis by simp
qed

text \<open>
  C10. The cache of a new service is valid, and each of \<open>getUsageSummary\<close>, \<open>clearCache\<close>,
  \<open>updateApiToken\<close> and \<open>testConnectivity\<close> takes a state whose cached summaries all have
  \<open>individualUsage\<close> to a state with the same property.
\<close>

theorem cached_summary_has_individualUsage:
  "cache_valid initial \<and>
   (cache_valid s \<longrightarrow>
      cache_valid (snd (getUsageSummary w forceRefresh s)) \<and>
      cache_valid (clearCache s) \<and>
      cache_valid (updateApiToken s) \<and>
      cache_valid (snd (testConnectivity w s)))"
proof -
  have "cache_valid initial"
    by (simp add: cache_valid_def initial_def)
  moreover have "cache_valid (snd (getUsageSummary w forceRefresh s))" if "cache_valid s"
    using perform_cache_valid[OF that, of w "GetUsageSummary forceRefresh"] by simp
  moreover have "cache_valid (clearCache s)" if "cache_valid s"
    using perform_cache_valid[OF that, of w ClearCache] by simp
  moreover have "cache_valid (updateApiToken s)" if "cache_valid s"
    using perform_cache_valid[OF that, of w UpdateApiToken] by simp
  moreover have "cache_valid (snd (testConnectivity w s))" if "cache_valid s"
    using perform_cache_valid[OF that, of w TestConnectivity] by simp
  ultimately show ?thesis by blast
qed

theorem cached_summary_has_individualUsage_witness:
  "cache_valid (cached_at 0) \<and>
   cache_valid (snd (getUsageSummary (demo_world (Some ''tok'') [answer 200 ''OK'' [''{mock}'']])
      True (cached_at 0))) \<and>
   cache (snd (getUsageSummary (demo_world (Some ''tok'') [answer 200 ''OK'' [''{mock}'']])
      True (cached_at 0))) cacheKey = Some \<lparr> data = getMockUsageData, timestamp = 100500 \<rparr>"
proof -
  let ?w = "demo_world (Some ''tok'') [answer 200 ''OK'' [''{mock}'']]"
  have v: "cache_valid (cached_at 0)"
    by (simp add: cache_valid_def cached_at_def initial_def pro_summary_def getMockUsageData_def)
  have "cache (snd (getUsageSummary ?w True (cached_at 0))) cacheKey =
      Some \<lparr> data = getMockUsageData, timestamp = 100500 \<rparr>"
    by (simp add: orchestrator_defs makeHttpsRequest.simps demo_defs transport_defs Let_def
        getMockUsageData_def)
  with v cached_summary_has_individualUsage[of "cached_at 0" ?w True] show ?thesis by simp
qed

text \<open>
  C2 (as the code has it). For a bucket that is present with \<open>limit = 0\<close> the percentage
  helpers do not return \<open>0\<close>: \<open>getIndividualUsagePercentage\<close> and both percentages of
  \<open>getTeamUsageInfo\<close> are \<open>NaN\<close> when \<open>used\<close> is \<open>0\<close> or \<open>NaN\<close>, and an infinity otherwise.
\<close>

theorem zero_limit_percentage_not_zero:
  assumes "limit b = Num 0"
  shows "(individualUsage u = Some i \<and> overall i = Some b \<longrightarrow>
            getIndividualUsagePercentage u \<in> {NaN, PInf, NInf} \<and>
            (getIndividualUsagePercentage u = NaN \<longleftrightarrow> used b = Num 0 \<or> used b = NaN)) \<and>
         (teamUsage u = Some t \<and> onDemand t = Some b \<longrightarrow>
            percentage (info_onDemand (getTeamUsageInfo u)) \<in> {NaN, PInf, NInf} \<and>
            (percentage (info_onDemand (getTeamUsageInfo u)) = NaN \<longleftrightarrow>
               used b = Num 0 \<or> used b = NaN)) \<and>
         (teamUsage u = Some t \<and> pooled t = Some b \<longrightarrow>
            percentage (info_pooled (getTeamUsageInfo u)) \<in> {NaN, PInf, NInf} \<and>
            (percentage (info_pooled (getTeamUsageInfo u)) = NaN \<longleftrightarrow>
               used b = Num 0 \<or> used b = NaN))"
  using percentage_of_zero_limit_range[OF assms]
  by (simp add: getIndividualUsagePercentage_def getTeamUsageInfo_def bucket_info_def Let_def)

text \<open>With \<open>limit = 0\<close>: \<open>794 / 0\<close> is \<open>Infinity\<close>, \<open>0 / 0\<close> is \<open>NaN\<close>.\<close>

theorem zero_limit_counterexample:
  "getIndividualUsagePercentage zero_limit_summary = PInf \<and>
   percentage (info_onDemand (getTeamUsageInfo zero_limit_summary)) = NaN \<and>
   percentage (info_pooled (getTeamUsageInfo zero_limit_summary)) = PInf"
  by (simp add: getIndividualUsagePercentage_def getTeamUsageInfo_def bucket_info_def Let_def
      zero_limit_summary_def zero_bucket_def percentage_of_def)

theorem zero_limit_percentage_not_zero_witness:
  "limit (zero_bucket 794) = Num 0 \<and>
   getIndividualUsagePercentage zero_limit_summary \<in> {NaN, PInf, NInf} \<and>
   getIndividualUsagePercentage zero_limit_summary \<noteq> NaN \<and>
   limit (zero_bucket 0) = Num 0 \<and>
   percentage (info_onDemand (getTeamUsageInfo zero_limit_summary)) = NaN"
proof -
  have i: "individualUsage zero_limit_summary = Some \<lparr> overall = Some (zero_bucket 794) \<rparr>"
    and t: "teamUsage zero_limit_summary =
      Some \<lparr> onDemand = Some (zero_bucket 0), pooled = Some (zero_bucket 6175916) \<rparr>"
    by (simp_all add: zero_limit_summary_def)
  have l: "limit (zero_bucket 794) = Num 0" "limit (zero_bucket 0) = Num 0"
    by (simp_all add: zero_bucket_def)
  from zero_limit_percentage_not_zero[OF l(1), where u = zero_limit_summary
      and i = "\<lparr> overall = Some (zero_bucket 794) \<rparr>"] i
  have a: "getIndividualUsagePercentage zero_limit_summary \<in> {NaN, PInf, NInf}"
    "getIndividualUsagePercentage zero_limit_summary \<noteq> NaN"
    by (auto simp: zero_bucket_def)
  from zero_limit_percentage_not_zero[OF l(2), where u = zero_limit_summary
      and t = "\<lparr> onDemand = Some (zero_bucket 0), pooled = Some (zero_bucket 6175916) \<rparr>"] t
  have b: "percentage (info_onDemand (getTeamUsageInfo zero_limit_summary)) = NaN"
    by (simp add: zero_bucket_def)
  from l a b show ?thesis by simp
qed

end
